theory Spec2Isabelle
  imports Main
begin

section \<open>Strings and the regular expressions of the validators\<close>

text \<open>
  Form fields are JavaScript strings, modelled as \<open>string\<close> (a list of characters, one
  for each code unit); \<open>length\<close> is the \<open>.length\<close> of the source. A string is falsy
  exactly when it is empty, so \<open>!name\<close> is \<open>name = []\<close>.
\<close>

text \<open>The class \<open>\d\<close> of a JavaScript regular expression without flags: the ten ASCII digits.\<close>

definition digit :: "char \<Rightarrow> bool" where
  "digit c = (c \<in> set ''0123456789'')"

text \<open>
  The two patterns of the source, \<open>/^\d{13}$/\<close> and \<open>/^\+?\d{10,15}$/\<close>, are sequences of
  quantified atoms between the anchors \<open>^\<close> and \<open>$\<close>. \<open>Quant a lo hi\<close> is \<open>a{lo,hi}\<close>;
  \<open>a{n}\<close> is \<open>Quant a n n\<close> and \<open>a?\<close> is \<open>Quant a 0 1\<close>.
\<close>

datatype atom = Digit | Lit char

datatype piece = Quant atom nat nat

fun atom_ok :: "atom \<Rightarrow> char \<Rightarrow> bool" where
  "atom_ok Digit c = digit c"
| "atom_ok (Lit d) c = (c = d)"

text \<open>
  \<open>matches ps s\<close>: the anchored pattern \<open>^ps$\<close> matches the whole of \<open>s\<close>. A quantifier
  first takes its mandatory repetitions, then greedily tries one more before it gives
  way to the rest of the pattern (backtracking). Without the \<open>m\<close> flag \<open>$\<close> matches at
  the end of the input only.
\<close>

fun matches :: "piece list \<Rightarrow> string \<Rightarrow> bool" where
  "matches [] s = (s = [])"
| "matches (Quant a (Suc lo) hi # ps) [] = False"
| "matches (Quant a (Suc lo) hi # ps) (c # cs) =
     (atom_ok a c \<and> matches (Quant a lo (hi - 1) # ps) cs)"
| "matches (Quant a 0 (Suc hi) # ps) [] = matches ps []"
| "matches (Quant a 0 (Suc hi) # ps) (c # cs) =
     ((atom_ok a c \<and> matches (Quant a 0 hi # ps) cs) \<or> matches ps (c # cs))"
| "matches (Quant a 0 0 # ps) s = matches ps s"

text \<open>\<open>/^\d{13}$/\<close>\<close>

definition id_regex :: "piece list" where
  "id_regex = [Quant Digit 13 13]"

text \<open>\<open>/^\+?\d{10,15}$/\<close>\<close>

definition phone_regex :: "piece list" where
  "phone_regex = [Quant (Lit (CHR ''+'')) 0 1, Quant Digit 10 15]"

text \<open>\<open>re.test(s)\<close>\<close>

definition test :: "piece list \<Rightarrow> string \<Rightarrow> bool" where
  "test re s = matches re s"


section \<open>The validators\<close>

text \<open>The interface \<open>FormData\<close> of the sign-up screen.\<close>

record FormData =
  name :: string
  surname :: string
  idNumber :: string
  phone :: string
  password :: string
  confirmPassword :: string

text \<open>The form state of the login screen, \<open>{ idNumber: '', password: '' }\<close>.\<close>

record LoginForm =
  login_idNumber :: string
  login_password :: string

text \<open>
  \<open>validateForm\<close> of \<open>SignUp_Screen.tsx\<close>; \<open>None\<close> is the \<open>null\<close> of the source, \<open>Some m\<close>
  the returned message.
\<close>

definition validateForm :: "FormData \<Rightarrow> string option" where
  "validateForm form =
     (if name form = [] \<or> surname form = [] \<or> idNumber form = [] \<or> phone form = []
         \<or> password form = [] \<or> confirmPassword form = []
      then Some ''Please fill in all fields.''
      else if \<not> test id_regex (idNumber form) then Some ''ID Number must be 13 digits.''
      else if \<not> test phone_regex (phone form) then Some ''Invalid phone number.''
      else if length (password form) < 8 then Some ''Password must be at least 8 characters.''
      else if password form \<noteq> confirmPassword form then Some ''Passwords do not match.''
      else None)"

text \<open>\<open>validateForm\<close> of the second sign-up screen (\<open>unnamed/part_000\<close>).\<close>

definition validateForm_part000 :: "FormData \<Rightarrow> string option" where
  "validateForm_part000 form =
     (if name form = [] \<or> surname form = [] \<or> idNumber form = [] \<or> phone form = []
         \<or> password form = [] \<or> confirmPassword form = []
      then Some ''Please fill in all fields.''
      else if \<not> test id_regex (idNumber form) then Some ''ID Number must be 13 digits.''
      else if \<not> test phone_regex (phone form) then Some ''Invalid phone number.''
      else if length (password form) < 8 then Some ''Password must be at least 8 characters.''
      else if password form \<noteq> confirmPassword form then Some ''Passwords do not match.''
      else None)"

text \<open>\<open>validateForm\<close> of \<open>Login_Screen.tsx\<close>.\<close>

definition validateForm_login :: "LoginForm \<Rightarrow> string option" where
  "validateForm_login form =
     (if login_idNumber form = [] \<or> login_password form = []
      then Some ''Please fill in all fields.''
      else if \<not> test id_regex (login_idNumber form) then Some ''ID must be 13 digits.''
      else None)"


section \<open>Errors, awaited calls and effects\<close>

text \<open>
  An error object as the flows read it: \<open>err.code\<close> and \<open>err.message\<close>. A field the
  object does not have is the empty string, which the source treats alike (\<open>||\<close> takes the
  default for both, and neither equals \<open>'23505'\<close>).
\<close>

datatype js_error = JsError (code: string) (message: string)

text \<open>\<open>new Error(m)\<close>\<close>

definition new_Error :: "string \<Rightarrow> js_error" where
  "new_Error m = JsError [] m"

text \<open>An awaited promise settles: it rejects with an error, which \<open>await\<close> throws, or resolves.\<close>

datatype 'a awaited = Rejects js_error | Resolves 'a

text \<open>\<open>s || d\<close> on strings: the default replaces the empty string.\<close>

definition or_default :: "string \<Rightarrow> string \<Rightarrow> string" where
  "or_default s d = (if s = [] then d else s)"

text \<open>
  \<open>String.prototype.trim\<close>: the white space and line terminators of ECMAScript that fit a
  one-byte character (tab, line feed, vertical tab, form feed, carriage return, space,
  no-break space) are removed at both ends.
\<close>

definition whitespace :: "char \<Rightarrow> bool" where
  "whitespace c = (of_char c \<in> {9, 10, 11, 12, 13, 32, 160 :: nat})"

definition trim :: "string \<Rightarrow> string" where
  "trim s = rev (dropWhile whitespace (rev (dropWhile whitespace s)))"

text \<open>The double quote of the \<open>or\<close> filter.\<close>

definition dquote :: string where
  "dquote = [CHR 0x22]"

text \<open>The row selected from \<open>citizens\<close>.\<close>

record citizen =
  citizen_id :: string
  first_name :: string
  last_name :: string

text \<open>\<open>{ data: citizenData, error: citizenError }\<close> of the citizen query.\<close>

record lookup_result =
  citizenData :: "citizen option"
  citizenError :: "js_error option"

text \<open>\<open>authData\<close>, read as \<open>authData.user?.id\<close>.\<close>

record auth_data =
  user_id :: "string option"

text \<open>\<open>{ data: authData, error: signUpError }\<close> of \<open>supabase.auth.signUp\<close>.\<close>

record signup_result =
  authData :: auth_data
  signUpError :: "js_error option"

text \<open>\<open>{ error: dbError }\<close> of the insert into \<open>users\<close>.\<close>

record insert_result =
  dbError :: "js_error option"

text \<open>\<open>options.data\<close> of the sign-up call of \<open>part_000\<close>.\<close>

record profile =
  profile_name :: string
  profile_surname :: string
  profile_idNumber :: string
  profile_phone :: string

text \<open>The argument of \<open>supabase.auth.signUp\<close>, with the fields either screen passes.\<close>

record signup_args =
  arg_email :: string
  arg_password :: string
  arg_phone :: "string option"
  arg_options_data :: "profile option"

text \<open>The object inserted into \<open>users\<close>.\<close>

record users_row =
  row_user_id :: "string option"
  row_citizen_id :: string
  row_email :: string
  row_phone :: string

text \<open>The JSON body of the login request.\<close>

record login_request =
  req_idNumber :: string
  req_password :: string

text \<open>
  The value of a property of the parsed body, as the flow reads it: \<open>undefined\<close> when the
  body has no such property, a string, or any other value (\<open>null\<close>, a boolean, a number, an
  array, an object). Of a value that is no string the flow reads whether it is truthy and
  what \<open>String\<close> makes of it: a text, or the \<open>TypeError\<close> of an object that has no
  primitive value (one with a property \<open>toString\<close> of its own that is no function).
\<close>

datatype js_value = Undefined | Str string | Other bool "js_error + string"

fun truthy :: "js_value \<Rightarrow> bool" where
  "truthy Undefined = False"
| "truthy (Str s) = (s \<noteq> [])"
| "truthy (Other t shown) = t"

text \<open>
  The conversion to a string that \<open>new Error(v)\<close> and \<open>localStorage.setItem(k, v)\<close> apply
  to \<open>v\<close>.
\<close>

fun String_of :: "js_value \<Rightarrow> js_error + string" where
  "String_of Undefined = Inr ''undefined''"
| "String_of (Str s) = Inr s"
| "String_of (Other t shown) = shown"

text \<open>
  The two properties \<open>message\<close> and \<open>token\<close> of a parsed body that is not \<open>null\<close>. Both
  are \<open>undefined\<close> when the body is a number, a string, a boolean or an array.
\<close>

record login_body =
  body_message :: js_value
  body_token :: js_value

text \<open>The parsed body \<open>data\<close> of the login response: JSON \<open>null\<close>, or any other value.\<close>

datatype parsed_json = Null | Value login_body

text \<open>
  Reading a property of \<open>null\<close> throws a \<open>TypeError\<close>; its message is worded here as V8
  words it.
\<close>

definition cannot_read_null :: "string \<Rightarrow> js_error" where
  "cannot_read_null property =
     JsError [] (''Cannot read properties of null (reading '' @ [CHR 0x27] @ property
                 @ [CHR 0x27] @ '')'')"

text \<open>
  The response of \<open>fetch\<close>: its HTTP status and the outcome of \<open>response.json()\<close>.
  \<open>response.ok\<close> is true for the statuses 200 to 299.
\<close>

record response =
  status :: nat
  json :: "parsed_json awaited"

definition ok :: "response \<Rightarrow> bool" where
  "ok r = (200 \<le> status r \<and> status r \<le> 299)"

text \<open>
  What a flow does, in order: the state setters of the screen, the calls to the outside
  and the navigation.
\<close>

datatype event =
    SetError string
  | SetLoading bool
  | ConsoleLog string
  | CitizenLookup string
  | SignUp signup_args
  | UsersInsert users_row
  | Fetch string login_request
  | SetItem string string
  | Alert string
  | Navigate string

text \<open>The outside world of each flow: what each call answers to its argument.\<close>

record supabase =
  citizens_single :: "string \<Rightarrow> lookup_result awaited"
  auth_signUp :: "signup_args \<Rightarrow> signup_result awaited"
  users_insert :: "users_row \<Rightarrow> insert_result awaited"

record supabase_part000 =
  auth_signUp_part000 :: "signup_args \<Rightarrow> signup_result awaited"

record network =
  fetch :: "string \<Rightarrow> login_request \<Rightarrow> response awaited"

text \<open>The state of a screen that the events change, and local storage.\<close>

record ui =
  error :: string
  loading :: bool
  localStorage :: "string \<rightharpoonup> string"

fun apply_event :: "ui \<Rightarrow> event \<Rightarrow> ui" where
  "apply_event u (SetError m) = u\<lparr>error := m\<rparr>"
| "apply_event u (SetLoading b) = u\<lparr>loading := b\<rparr>"
| "apply_event u (SetItem k v) = u\<lparr>localStorage := (localStorage u)(k \<mapsto> v)\<rparr>"
| "apply_event u _ = u"

definition run :: "ui \<Rightarrow> event list \<Rightarrow> ui" where
  "run u evs = foldl apply_event u evs"

text \<open>A screen as it is mounted: \<open>useState('')\<close>, \<open>useState(false)\<close>, nothing stored.\<close>

definition initial_ui :: ui where
  "initial_ui = \<lparr>error = [], loading = False, localStorage = Map.empty\<rparr>"

text \<open>Projections of a trace: the navigations, the sign-up calls, the writes to storage.\<close>

fun navigations :: "event list \<Rightarrow> string list" where
  "navigations [] = []"
| "navigations (Navigate p # evs) = p # navigations evs"
| "navigations (_ # evs) = navigations evs"

fun signups :: "event list \<Rightarrow> signup_args list" where
  "signups [] = []"
| "signups (SignUp a # evs) = a # signups evs"
| "signups (_ # evs) = signups evs"

fun storage_writes :: "event list \<Rightarrow> (string \<times> string) list" where
  "storage_writes [] = []"
| "storage_writes (SetItem k v # evs) = (k, v) # storage_writes evs"
| "storage_writes (_ # evs) = storage_writes evs"

fun is_SetLoading :: "event \<Rightarrow> bool" where
  "is_SetLoading (SetLoading b) = True"
| "is_SetLoading _ = False"

text \<open>A call to the outside: the citizen query, the sign-up, the insert or the fetch.\<close>

fun is_call :: "event \<Rightarrow> bool" where
  "is_call (CitizenLookup f) = True"
| "is_call (SignUp a) = True"
| "is_call (UsersInsert r) = True"
| "is_call (Fetch u b) = True"
| "is_call _ = False"


section \<open>The login flow\<close>

definition login_url :: string where
  "login_url = ''https://docufy-backend.vercel.app/api/auth/login''"

text \<open>
  The \<open>try\<close> block of \<open>handleLogin\<close>: the events it performs and the error it throws,
  if any.
\<close>

definition handleLogin_try :: "network \<Rightarrow> LoginForm \<Rightarrow> event list \<times> js_error option" where
  "handleLogin_try env form =
     (let req = \<lparr>req_idNumber = login_idNumber form, req_password = login_password form\<rparr>;
          fetched = [Fetch login_url req]
      in case fetch env login_url req of
           Rejects err \<Rightarrow> (fetched, Some err)
         | Resolves response \<Rightarrow>
             (case json response of
                Rejects err \<Rightarrow> (fetched, Some err)
              | Resolves data \<Rightarrow>
                  if \<not> ok response
                  then (case data of
                          Null \<Rightarrow> (fetched, Some (cannot_read_null ''message''))
                        | Value body \<Rightarrow>
                            if truthy (body_message body)
                            then (case String_of (body_message body) of
                                    Inl err \<Rightarrow> (fetched, Some err)
                                  | Inr shown \<Rightarrow> (fetched, Some (new_Error shown)))
                            else (fetched, Some (new_Error ''Login failed.'')))
                  else (case data of
                          Null \<Rightarrow> (fetched, Some (cannot_read_null ''token''))
                        | Value body \<Rightarrow>
                            if truthy (body_token body)
                            then (case String_of (body_token body) of
                                    Inl err \<Rightarrow> (fetched, Some err)
                                  | Inr shown \<Rightarrow>
                                      (fetched @ [SetItem ''token'' shown, Navigate ''/home''],
                                       None))
                            else (fetched @ [Navigate ''/home''], None))))"

text \<open>\<open>handleLogin\<close> of \<open>Login_Screen.tsx\<close>: validation, then \<open>try\<close>/\<open>catch\<close>/\<open>finally\<close>.\<close>

definition handleLogin :: "network \<Rightarrow> LoginForm \<Rightarrow> event list" where
  "handleLogin env form =
     (let submit =
            SetLoading True
            # (case handleLogin_try env form of
                 (evs, None) \<Rightarrow> evs
               | (evs, Some err) \<Rightarrow>
                   evs @ [SetError (or_default (message err) ''Login failed. Check ID and password.'')])
            @ [SetLoading False]
      in case validateForm_login form of
           None \<Rightarrow> submit
         | Some validationError \<Rightarrow>
             if validationError \<noteq> [] then [SetError validationError] else submit)"


section \<open>The registration flows\<close>

text \<open>
  The template literals and object literals of \<open>handleRegister\<close> of \<open>SignUp_Screen.tsx\<close>:
  the \<open>or\<close> filter, the synthetic email, the argument of the sign-up and the inserted row.
\<close>

definition orFilter :: "string \<Rightarrow> string" where
  "orFilter idn = ''national_id_no.eq.'' @ dquote @ idn @ dquote
                  @ '',passport_no.eq.'' @ dquote @ idn @ dquote"

definition fakeEmail :: "FormData \<Rightarrow> string" where
  "fakeEmail form = ''user'' @ idNumber form @ ''@example.com''"

definition signUp_args :: "FormData \<Rightarrow> signup_args" where
  "signUp_args form =
     \<lparr>arg_email = trim (fakeEmail form),
      arg_password = trim (password form),
      arg_phone = Some (trim (phone form)),
      arg_options_data = None\<rparr>"

definition users_row :: "FormData \<Rightarrow> citizen \<Rightarrow> auth_data \<Rightarrow> users_row" where
  "users_row form found created =
     \<lparr>row_user_id = user_id created,
      row_citizen_id = citizen_id found,
      row_email = fakeEmail form,
      row_phone = phone form\<rparr>"

text \<open>\<open>console.log('Citizen Error:', citizenError); console.log('Citizen Data:', citizenData)\<close>\<close>

definition logged :: "event list" where
  "logged = [ConsoleLog ''Citizen Error:'', ConsoleLog ''Citizen Data:'']"

text \<open>The \<open>try\<close> block of \<open>handleRegister\<close> of \<open>SignUp_Screen.tsx\<close>.\<close>

definition handleRegister_try :: "supabase \<Rightarrow> FormData \<Rightarrow> event list \<times> js_error option" where
  "handleRegister_try env form =
     (let looked = [CitizenLookup (orFilter (idNumber form))]
      in case citizens_single env (orFilter (idNumber form)) of
           Rejects err \<Rightarrow> (looked, Some err)
         | Resolves lookup \<Rightarrow>
             (case (citizenError lookup, citizenData lookup) of
                (None, Some found) \<Rightarrow>
                  (let signed = looked @ logged @ [SignUp (signUp_args form)]
                   in case auth_signUp env (signUp_args form) of
                        Rejects err \<Rightarrow> (signed, Some err)
                      | Resolves signedUp \<Rightarrow>
                          (case signUpError signedUp of
                             Some err \<Rightarrow> (signed, Some err)
                           | None \<Rightarrow>
                               (let row = users_row form found (authData signedUp);
                                    inserted = signed @ [UsersInsert row]
                                in case users_insert env row of
                                     Rejects err \<Rightarrow> (inserted, Some err)
                                   | Resolves result \<Rightarrow>
                                       (case dbError result of
                                          None \<Rightarrow> (inserted @ [Navigate ''/login''], None)
                                        | Some err \<Rightarrow>
                                            if code err \<noteq> ''23505''
                                            then (inserted, Some err)
                                            else (inserted @ [Navigate ''/login''], None)))))
              | _ \<Rightarrow>
                  (looked @ logged,
                   Some (new_Error ''No matching record found in government database.''))))"

text \<open>\<open>handleRegister\<close> of \<open>SignUp_Screen.tsx\<close>.\<close>

definition handleRegister :: "supabase \<Rightarrow> FormData \<Rightarrow> event list" where
  "handleRegister env form =
     (let submit =
            SetLoading True
            # (case handleRegister_try env form of
                 (evs, None) \<Rightarrow> evs
               | (evs, Some err) \<Rightarrow>
                   evs @ [SetError (or_default (message err) ''Registration failed.'')])
            @ [SetLoading False]
      in SetError []
         # (case validateForm form of
              None \<Rightarrow> submit
            | Some formError \<Rightarrow> if formError \<noteq> [] then [SetError formError] else submit))"

text \<open>The synthetic email and the argument of the sign-up of \<open>part_000\<close>.\<close>

definition email_part000 :: "FormData \<Rightarrow> string" where
  "email_part000 form = ''user'' @ idNumber form @ ''@example.com''"

definition signUp_args_part000 :: "FormData \<Rightarrow> signup_args" where
  "signUp_args_part000 form =
     \<lparr>arg_email = email_part000 form,
      arg_password = password form,
      arg_phone = None,
      arg_options_data =
        Some \<lparr>profile_name = name form, profile_surname = surname form,
              profile_idNumber = idNumber form, profile_phone = phone form\<rparr>\<rparr>"

text \<open>The \<open>try\<close> block of \<open>handleRegister\<close> of \<open>part_000\<close>.\<close>

definition handleRegister_try_part000 ::
  "supabase_part000 \<Rightarrow> FormData \<Rightarrow> event list \<times> js_error option" where
  "handleRegister_try_part000 env form =
     (let signed = [SignUp (signUp_args_part000 form)]
      in case auth_signUp_part000 env (signUp_args_part000 form) of
           Rejects err \<Rightarrow> (signed, Some err)
         | Resolves signedUp \<Rightarrow>
             (case signUpError signedUp of
                Some err \<Rightarrow> (signed, Some err)
              | None \<Rightarrow>
                  (signed
                   @ [Alert ''Registration successful! Please check your email to confirm.'',
                      Navigate ''/login''],
                   None)))"

text \<open>\<open>handleRegister\<close> of \<open>part_000\<close>.\<close>

definition handleRegister_part000 :: "supabase_part000 \<Rightarrow> FormData \<Rightarrow> event list" where
  "handleRegister_part000 env form =
     (let submit =
            SetLoading True
            # (case handleRegister_try_part000 env form of
                 (evs, None) \<Rightarrow> evs
               | (evs, Some err) \<Rightarrow>
                   evs @ [SetError (or_default (message err) ''Registration failed.'')])
            @ [SetLoading False]
      in SetError []
         # (case validateForm_part000 form of
              None \<Rightarrow> submit
            | Some formError \<Rightarrow> if formError \<noteq> [] then [SetError formError] else submit))"


section \<open>The validator as the specification words it\<close>

text \<open>
  ``Exactly 13 digits'' and ``10 to 15 digits'': \<open>spec_digits lo hi s\<close> says that \<open>s\<close>
  consists of digits only, at least \<open>lo\<close> and at most \<open>hi\<close> of them.
\<close>

definition spec_digits :: "nat \<Rightarrow> nat \<Rightarrow> string \<Rightarrow> bool" where
  "spec_digits lo hi s = (lo \<le> length s \<and> length s \<le> hi \<and> (\<forall>c\<in>set s. digit c))"


section \<open>Sample submissions\<close>

definition sample_form :: FormData where
  "sample_form =
     \<lparr>name = ''Thandi'', surname = ''Mokoena'', idNumber = ''9001015009087'',
      phone = ''+27821234567'', password = ''correct horse'',
      confirmPassword = ''correct horse''\<rparr>"

definition sample_login :: LoginForm where
  "sample_login = \<lparr>login_idNumber = ''9001015009087'', login_password = ''correct horse''\<rparr>"

definition sample_citizen :: citizen where
  "sample_citizen = \<lparr>citizen_id = ''c-17'', first_name = ''Thandi'', last_name = ''Mokoena''\<rparr>"

definition signed_up :: signup_result where
  "signed_up = \<lparr>authData = \<lparr>user_id = Some ''u-1''\<rparr>, signUpError = None\<rparr>"

definition sample_supabase :: "lookup_result \<Rightarrow> js_error option \<Rightarrow> supabase" where
  "sample_supabase lookup insertError =
     \<lparr>citizens_single = (\<lambda>filter. Resolves lookup),
      auth_signUp = (\<lambda>args. Resolves signed_up),
      users_insert = (\<lambda>row. Resolves \<lparr>dbError = insertError\<rparr>)\<rparr>"

definition lookup_found :: lookup_result where
  "lookup_found = \<lparr>citizenData = Some sample_citizen, citizenError = None\<rparr>"

definition lookup_no_rows :: lookup_result where
  "lookup_no_rows =
     \<lparr>citizenData = None, citizenError = Some (JsError ''PGRST116'' ''no rows returned'')\<rparr>"

definition sample_supabase_part000 :: "signup_result awaited \<Rightarrow> supabase_part000" where
  "sample_supabase_part000 answer = \<lparr>auth_signUp_part000 = (\<lambda>args. answer)\<rparr>"

text \<open>An endpoint that answers every request with the status and the outcome of \<open>json()\<close>.\<close>

definition sample_network :: "nat \<Rightarrow> parsed_json awaited \<Rightarrow> network" where
  "sample_network st parsed = \<lparr>fetch = (\<lambda>url req. Resolves \<lparr>status = st, json = parsed\<rparr>)\<rparr>"

text \<open>The bodies \<open>{token: "abc"}\<close>, \<open>{message: "bad creds"}\<close> and \<open>{message: ""}\<close>.\<close>

definition body_abc :: login_body where
  "body_abc = \<lparr>body_message = Undefined, body_token = Str ''abc''\<rparr>"

definition body_bad_creds :: login_body where
  "body_bad_creds = \<lparr>body_message = Str ''bad creds'', body_token = Undefined\<rparr>"

definition body_empty_message :: login_body where
  "body_empty_message = \<lparr>body_message = Str [], body_token = Undefined\<rparr>"

text \<open>The error of a body that is no JSON, as V8 words it for an empty body.\<close>

definition unexpected_end :: js_error where
  "unexpected_end = JsError [] ''Unexpected end of JSON input''"


section \<open>What the two patterns accept\<close>

lemma matches_quant_single:
  "lo \<le> hi \<Longrightarrow>
   matches [Quant a lo hi] s \<longleftrightarrow>
     (lo \<le> length s \<and> length s \<le> hi \<and> (\<forall>c\<in>set s. atom_ok a c))"
proof (induction "[Quant a lo hi]" s arbitrary: lo hi rule: matches.induct)
  case (2 lo hi)
  then show ?case by simp
next
  case (3 lo hi c cs)
  then show ?case by (cases hi) auto
next
  case (4 hi)
  then show ?case by simp
next
  case (5 hi c cs)
  then show ?case by auto
next
  case (6 s)
  then show ?case by (cases s) auto
qed

lemma matches_digits: "lo \<le> hi \<Longrightarrow> matches [Quant Digit lo hi] s = spec_digits lo hi s"
  by (simp add: matches_quant_single spec_digits_def)

lemma test_id_regex: "test id_regex s = spec_digits 13 13 s"
  by (simp add: test_def id_regex_def matches_digits)

lemma test_phone_regex:
  "test phone_regex s \<longleftrightarrow>
     spec_digits 10 15 s \<or> (\<exists>body. s = CHR ''+'' # body \<and> spec_digits 10 15 body)"
proof (cases s)
  case Nil
  then show ?thesis by (simp add: test_def phone_regex_def matches_digits)
next
  case (Cons c cs)
  have "test phone_regex s \<longleftrightarrow>
          (c = CHR ''+'' \<and> matches [Quant Digit 10 15] cs) \<or> matches [Quant Digit 10 15] (c # cs)"
    by (simp add: Cons test_def phone_regex_def)
  then show ?thesis
    by (auto simp add: Cons matches_digits)
qed

lemma sample_form_valid: "validateForm sample_form = None"
  by (simp add: validateForm_def sample_form_def test_id_regex test_phone_regex
      spec_digits_def digit_def)

lemma sample_form_valid_part000: "validateForm_part000 sample_form = None"
  by (simp add: validateForm_part000_def sample_form_def test_id_regex test_phone_regex
      spec_digits_def digit_def)

lemma sample_login_valid: "validateForm_login sample_login = None"
  by (simp add: validateForm_login_def sample_login_def test_id_regex spec_digits_def digit_def)


section \<open>Properties of the validators\<close>

text \<open>
  C1. The registration validator returns no error or exactly one message, chosen by a
  fixed precedence: an empty required field first, then an \<open>idNumber\<close> that is not exactly
  13 digits, then a phone that is not an optional \<open>+\<close> followed by 10 to 15 digits, then
  a password shorter than 8 characters, then a confirmation that differs. The result is
  a function of the field set alone, and the validator of the second sign-up screen
  computes the same function.
\<close>

theorem validateForm_precedence:
  "validateForm form =
     (if name form = [] \<or> surname form = [] \<or> idNumber form = [] \<or> phone form = []
         \<or> password form = [] \<or> confirmPassword form = []
      then Some ''Please fill in all fields.''
      else if \<not> spec_digits 13 13 (idNumber form)
      then Some ''ID Number must be 13 digits.''
      else if \<not> (spec_digits 10 15 (phone form)
                  \<or> (\<exists>body. phone form = CHR ''+'' # body \<and> spec_digits 10 15 body))
      then Some ''Invalid phone number.''
      else if length (password form) < 8 then Some ''Password must be at least 8 characters.''
      else if password form \<noteq> confirmPassword form then Some ''Passwords do not match.''
      else None)
   \<and> validateForm_part000 form = validateForm form"
  unfolding validateForm_def validateForm_part000_def test_id_regex test_phone_regex
  by simp

theorem validateForm_precedence_witness:
  "validateForm
     (sample_form\<lparr>phone := ''12345'', password := ''short'', confirmPassword := ''other''\<rparr>)
   = Some ''Invalid phone number.''
   \<and> validateForm_part000 sample_form = None"
  using validateForm_precedence
          [of "sample_form\<lparr>phone := ''12345'', password := ''short'',
                           confirmPassword := ''other''\<rparr>"]
        validateForm_precedence [of sample_form]
  by (simp add: sample_form_def spec_digits_def digit_def)

text \<open>
  C6, as the specification states it: an \<open>idNumber\<close> of length other than 13, or with a
  character that is not a digit, yields the ID-format error whatever the other fields
  are, empty ones included. It fails: the check for empty fields comes first. Here
  \<open>name\<close> is empty and \<open>idNumber\<close> is \<open>123\<close>.
\<close>

theorem id_error_counterexample:
  "length (idNumber (sample_form\<lparr>name := [], idNumber := ''123''\<rparr>)) \<noteq> 13
   \<and> validateForm (sample_form\<lparr>name := [], idNumber := ''123''\<rparr>)
       = Some ''Please fill in all fields.''
   \<and> validateForm (sample_form\<lparr>name := [], idNumber := ''123''\<rparr>)
       \<noteq> Some ''ID Number must be 13 digits.''"
  by (simp add: validateForm_def sample_form_def)

text \<open>
  C6, amended: when every required field is non-empty, an \<open>idNumber\<close> of length other
  than 13, or with a character that is not a digit, yields the ID-format error of the
  screen, whatever the phone, the password and the confirmation are: \<open>ID Number must be
  13 digits.\<close> on both sign-up screens, \<open>ID must be 13 digits.\<close> on the login screen.
\<close>

theorem id_error_when_filled:
  "(name form \<noteq> [] \<and> surname form \<noteq> [] \<and> idNumber form \<noteq> [] \<and> phone form \<noteq> []
      \<and> password form \<noteq> [] \<and> confirmPassword form \<noteq> []
      \<and> (length (idNumber form) \<noteq> 13 \<or> (\<exists>c\<in>set (idNumber form). \<not> digit c))
    \<longrightarrow> validateForm form = Some ''ID Number must be 13 digits.''
        \<and> validateForm_part000 form = Some ''ID Number must be 13 digits.'')
   \<and> (login_idNumber lform \<noteq> [] \<and> login_password lform \<noteq> []
      \<and> (length (login_idNumber lform) \<noteq> 13 \<or> (\<exists>c\<in>set (login_idNumber lform). \<not> digit c))
    \<longrightarrow> validateForm_login lform = Some ''ID must be 13 digits.'')"
  by (auto simp add: validateForm_def validateForm_part000_def validateForm_login_def
      test_id_regex spec_digits_def)

theorem id_error_when_filled_witness:
  "validateForm
     (sample_form\<lparr>idNumber := ''90010150090a7'', phone := ''x'', password := ''p'',
                  confirmPassword := ''q''\<rparr>)
   = Some ''ID Number must be 13 digits.''
   \<and> validateForm_login (sample_login\<lparr>login_idNumber := ''123''\<rparr>)
       = Some ''ID must be 13 digits.''"
  using id_error_when_filled
          [of "sample_form\<lparr>idNumber := ''90010150090a7'', phone := ''x'', password := ''p'',
                           confirmPassword := ''q''\<rparr>"
              "sample_login\<lparr>login_idNumber := ''123''\<rparr>"]
  by (simp add: sample_form_def sample_login_def digit_def)

text \<open>
  C7, as the specification states it: on the login screen, with both fields non-empty
  and an \<open>idNumber\<close> that is not exactly 13 digits, the message is \<open>ID Number must be 13
  digits.\<close> It fails: the login screen has a message of its own.
\<close>

theorem login_id_message_counterexample:
  "login_idNumber (sample_login\<lparr>login_idNumber := ''123''\<rparr>) \<noteq> []
   \<and> login_password (sample_login\<lparr>login_idNumber := ''123''\<rparr>) \<noteq> []
   \<and> \<not> spec_digits 13 13 (login_idNumber (sample_login\<lparr>login_idNumber := ''123''\<rparr>))
   \<and> validateForm_login (sample_login\<lparr>login_idNumber := ''123''\<rparr>)
       \<noteq> Some ''ID Number must be 13 digits.''"
  by (simp add: validateForm_login_def sample_login_def test_id_regex spec_digits_def)

text \<open>
  C7, amended: on the login screen, with both fields non-empty and an \<open>idNumber\<close> that
  is not exactly 13 digits, the validator returns exactly \<open>ID must be 13 digits.\<close>
\<close>

theorem login_id_message:
  "login_idNumber form \<noteq> [] \<Longrightarrow> login_password form \<noteq> []
   \<Longrightarrow> \<not> spec_digits 13 13 (login_idNumber form)
   \<Longrightarrow> validateForm_login form = Some ''ID must be 13 digits.''"
  by (simp add: validateForm_login_def test_id_regex)

theorem login_id_message_witness:
  "validateForm_login (sample_login\<lparr>login_idNumber := ''900101500908''\<rparr>)
   = Some ''ID must be 13 digits.''"
  using login_id_message [of "sample_login\<lparr>login_idNumber := ''900101500908''\<rparr>"]
  by (simp add: sample_login_def spec_digits_def)


section \<open>Properties of the registration flow\<close>

lemma handleRegister_valid:
  "validateForm form = None \<Longrightarrow>
   handleRegister env form =
     SetError [] # SetLoading True
     # (case handleRegister_try env form of
          (evs, None) \<Rightarrow> evs
        | (evs, Some err) \<Rightarrow> evs @ [SetError (or_default (message err) ''Registration failed.'')])
     @ [SetLoading False]"
  by (simp add: handleRegister_def)

lemma handleRegister_try_no_citizen:
  assumes "citizens_single env (orFilter (idNumber form)) = Resolves lookup"
    and "citizenData lookup = None \<or> citizenError lookup \<noteq> None"
  shows "handleRegister_try env form =
           (CitizenLookup (orFilter (idNumber form)) # logged,
            Some (new_Error ''No matching record found in government database.''))"
  using assms by (auto simp add: handleRegister_try_def Let_def split: option.splits)

lemma handleRegister_try_inserted:
  assumes "citizens_single env (orFilter (idNumber form)) = Resolves lookup"
    and "citizenError lookup = None" and "citizenData lookup = Some row"
    and "auth_signUp env (signUp_args form) = Resolves signedUp"
    and "signUpError signedUp = None"
    and "users_insert env (users_row form row (authData signedUp)) = Resolves result"
  shows "handleRegister_try env form =
           (let called = CitizenLookup (orFilter (idNumber form)) # logged
                         @ [SignUp (signUp_args form),
                            UsersInsert (users_row form row (authData signedUp))]
            in case dbError result of
                 None \<Rightarrow> (called @ [Navigate ''/login''], None)
               | Some err \<Rightarrow> if code err \<noteq> ''23505'' then (called, Some err)
                             else (called @ [Navigate ''/login''], None))"
  using assms by (simp add: handleRegister_try_def Let_def split: option.splits)

text \<open>
  C2. When a registration passes validation and the citizen lookup answers with no row
  or with an error, the flow stops before any sign-up call and the displayed error is
  exactly \<open>No matching record found in government database.\<close>
\<close>

theorem lookup_failure_aborts:
  assumes "validateForm form = None"
    and "citizens_single env (orFilter (idNumber form)) = Resolves lookup"
    and "citizenData lookup = None \<or> citizenError lookup \<noteq> None"
  shows "handleRegister env form =
           [SetError [], SetLoading True, CitizenLookup (orFilter (idNumber form)),
            ConsoleLog ''Citizen Error:'', ConsoleLog ''Citizen Data:'',
            SetError ''No matching record found in government database.'',
            SetLoading False]
       \<and> signups (handleRegister env form) = []
       \<and> error (run u (handleRegister env form))
           = ''No matching record found in government database.''"
  by (simp add: handleRegister_valid [OF assms(1)]
      handleRegister_try_no_citizen [OF assms(2,3)]
      logged_def new_Error_def or_default_def run_def)

theorem lookup_failure_aborts_witness:
  "signups (handleRegister (sample_supabase lookup_no_rows None) sample_form) = []
   \<and> error (run initial_ui (handleRegister (sample_supabase lookup_no_rows None) sample_form))
       = ''No matching record found in government database.''"
proof -
  have asked:
    "citizens_single (sample_supabase lookup_no_rows None) (orFilter (idNumber sample_form))
     = Resolves lookup_no_rows"
    by (simp add: sample_supabase_def)
  have none: "citizenData lookup_no_rows = None \<or> citizenError lookup_no_rows \<noteq> None"
    by (simp add: lookup_no_rows_def)
  show ?thesis
    using lookup_failure_aborts [OF sample_form_valid asked none, of initial_ui] by blast
qed

text \<open>
  C3, as the specification states it: after a successful lookup and sign-up, an insert
  that fails with a code other than \<open>23505\<close> has its message displayed. It fails for an
  error whose message is empty: the default \<open>Registration failed.\<close> is displayed instead.
\<close>

theorem insert_error_message_counterexample:
  "code (JsError ''23503'' []) \<noteq> ''23505''
   \<and> error (run initial_ui
         (handleRegister (sample_supabase lookup_found (Some (JsError ''23503'' [])))
            sample_form))
       \<noteq> message (JsError ''23503'' [])
   \<and> error (run initial_ui
         (handleRegister (sample_supabase lookup_found (Some (JsError ''23503'' [])))
            sample_form))
       = ''Registration failed.''"
  by (simp add: handleRegister_valid [OF sample_form_valid] handleRegister_try_def
      sample_supabase_def lookup_found_def signed_up_def or_default_def run_def Let_def
      logged_def)

text \<open>
  C3, amended: when the lookup and the sign-up both succeed and the insert fails, the
  duplicate-key code \<open>23505\<close> is swallowed: the flow navigates to \<open>/login\<close> and displays
  no error. With any other code there is no navigation, and the displayed error is the
  error's message when that is non-empty and \<open>Registration failed.\<close> otherwise.
\<close>

theorem insert_error_handling:
  assumes "validateForm form = None"
    and "citizens_single env (orFilter (idNumber form)) = Resolves lookup"
    and "citizenError lookup = None" and "citizenData lookup = Some row"
    and "auth_signUp env (signUp_args form) = Resolves signedUp"
    and "signUpError signedUp = None"
    and "users_insert env (users_row form row (authData signedUp)) = Resolves result"
    and "dbError result = Some err"
  shows "(code err = ''23505'' \<longrightarrow>
            navigations (handleRegister env form) = [''/login'']
            \<and> error (run u (handleRegister env form)) = [])
       \<and> (code err \<noteq> ''23505'' \<longrightarrow>
            navigations (handleRegister env form) = []
            \<and> error (run u (handleRegister env form))
                = (if message err \<noteq> [] then message err else ''Registration failed.''))"
  by (simp add: handleRegister_valid [OF assms(1)] handleRegister_try_inserted [OF assms(2-7)]
      assms(8) or_default_def run_def Let_def logged_def)

theorem insert_error_handling_witness:
  "navigations
     (handleRegister (sample_supabase lookup_found (Some (JsError ''23505'' ''duplicate key'')))
        sample_form)
   = [''/login'']
   \<and> error (run initial_ui
         (handleRegister
            (sample_supabase lookup_found (Some (JsError ''23503'' ''foreign key violation'')))
            sample_form))
       = ''foreign key violation''"
proof -
  have asked:
    "citizens_single (sample_supabase lookup_found e) (orFilter (idNumber sample_form))
     = Resolves lookup_found" for e
    by (simp add: sample_supabase_def)
  have row: "citizenError lookup_found = None" "citizenData lookup_found = Some sample_citizen"
    by (simp_all add: lookup_found_def)
  have signed:
    "auth_signUp (sample_supabase lookup_found e) (signUp_args sample_form)
     = Resolves signed_up" for e
    by (simp add: sample_supabase_def)
  have noerr: "signUpError signed_up = None"
    by (simp add: signed_up_def)
  have inserted:
    "users_insert (sample_supabase lookup_found e)
       (users_row sample_form sample_citizen (authData signed_up))
     = Resolves \<lparr>dbError = e\<rparr>" for e
    by (simp add: sample_supabase_def)
  have err: "dbError \<lparr>dbError = Some e\<rparr> = Some e" for e :: js_error
    by simp
  show ?thesis
    using insert_error_handling
            [OF sample_form_valid asked row signed noerr inserted err,
             of "JsError ''23505'' ''duplicate key''" initial_ui]
          insert_error_handling
            [OF sample_form_valid asked row signed noerr inserted err,
             of "JsError ''23503'' ''foreign key violation''" initial_ui]
    by simp
qed

text \<open>The email of the sign-up survives \<open>trim\<close>: it starts with \<open>u\<close> and ends with \<open>m\<close>.\<close>

lemma trim_fakeEmail:
  "trim (''user'' @ idn @ ''@example.com'') = ''user'' @ idn @ ''@example.com''"
  by (simp add: trim_def whitespace_def)

lemma arg_email_signUp_args:
  "arg_email (signUp_args form) = ''user'' @ idNumber form @ ''@example.com''"
  by (simp add: signUp_args_def fakeEmail_def trim_def whitespace_def)

lemma arg_email_signUp_args_part000:
  "arg_email (signUp_args_part000 form) = ''user'' @ idNumber form @ ''@example.com''"
  by (simp add: signUp_args_part000_def email_part000_def)

lemma signups_snoc_SetLoading: "signups (evs @ [SetLoading b]) = signups evs"
  by (induction evs rule: signups.induct) simp_all

lemma signups_snoc_SetError: "signups (evs @ [SetError m]) = signups evs"
  by (induction evs rule: signups.induct) simp_all

lemma signups_catch:
  "signups (case r of (evs, None) \<Rightarrow> evs | (evs, Some err) \<Rightarrow> evs @ [SetError (h err)])
   = signups (fst r)"
  by (cases r) (simp add: signups_snoc_SetError split: option.splits)

lemma signups_handleRegister_try:
  "signups (fst (handleRegister_try env form)) = []
   \<or> signups (fst (handleRegister_try env form)) = [signUp_args form]"
  by (auto simp add: handleRegister_try_def Let_def logged_def
      split: awaited.splits option.splits)

lemma signups_handleRegister:
  "signups (handleRegister env form) = signups (fst (handleRegister_try env form))
   \<or> signups (handleRegister env form) = []"
  by (simp add: handleRegister_def Let_def signups_catch signups_snoc_SetLoading
      split: option.splits)

lemma signups_handleRegister_reached:
  assumes "validateForm form = None"
    and "citizens_single env (orFilter (idNumber form)) = Resolves lookup"
    and "citizenError lookup = None" and "citizenData lookup = Some row"
  shows "signups (handleRegister env form) = [signUp_args form]"
proof -
  have "signups (fst (handleRegister_try env form)) = [signUp_args form]"
    using assms(2-4)
    by (simp add: handleRegister_try_def Let_def logged_def
        split: awaited.splits option.splits)
  then show ?thesis
    by (simp add: handleRegister_valid [OF assms(1)] signups_catch signups_snoc_SetLoading)
qed


section \<open>Properties of the registration flow of \<open>part_000\<close>\<close>

lemma handleRegister_part000_valid:
  "validateForm_part000 form = None \<Longrightarrow>
   handleRegister_part000 env form =
     SetError [] # SetLoading True
     # (case handleRegister_try_part000 env form of
          (evs, None) \<Rightarrow> evs
        | (evs, Some err) \<Rightarrow> evs @ [SetError (or_default (message err) ''Registration failed.'')])
     @ [SetLoading False]"
  by (simp add: handleRegister_part000_def)

lemma handleRegister_try_part000_cases:
  "handleRegister_try_part000 env form =
     (case auth_signUp_part000 env (signUp_args_part000 form) of
        Rejects err \<Rightarrow> ([SignUp (signUp_args_part000 form)], Some err)
      | Resolves signedUp \<Rightarrow>
          (case signUpError signedUp of
             Some err \<Rightarrow> ([SignUp (signUp_args_part000 form)], Some err)
           | None \<Rightarrow>
               ([SignUp (signUp_args_part000 form),
                 Alert ''Registration successful! Please check your email to confirm.'',
                 Navigate ''/login''],
                None)))"
  by (simp add: handleRegister_try_part000_def Let_def split: awaited.splits option.splits)

lemma signups_handleRegister_try_part000:
  "signups (fst (handleRegister_try_part000 env form)) = [signUp_args_part000 form]"
  by (simp add: handleRegister_try_part000_cases split: awaited.splits option.splits)

lemma signups_handleRegister_part000:
  "signups (handleRegister_part000 env form) = [signUp_args_part000 form]
   \<or> signups (handleRegister_part000 env form) = []"
  by (simp add: handleRegister_part000_def Let_def signups_catch signups_snoc_SetLoading
      signups_handleRegister_try_part000 split: option.splits)

text \<open>
  C9. Whenever a registration reaches the sign-up, the email passed to the auth provider
  is \<open>user\<close>, then the submitted \<open>idNumber\<close>, then \<open>@example.com\<close>: every sign-up call
  of either screen carries that email, and the sign-up is called once with it when
  validation passes (and, on the screen with the citizen lookup, the lookup finds a row).
\<close>

theorem signUp_email:
  "(\<forall>a\<in>set (signups (handleRegister env form)).
      arg_email a = ''user'' @ idNumber form @ ''@example.com'')
   \<and> (\<forall>a\<in>set (signups (handleRegister_part000 env0 form)).
      arg_email a = ''user'' @ idNumber form @ ''@example.com'')
   \<and> (validateForm form = None
      \<and> citizens_single env (orFilter (idNumber form)) = Resolves lookup
      \<and> citizenError lookup = None \<and> citizenData lookup = Some row
      \<longrightarrow> map arg_email (signups (handleRegister env form))
           = [''user'' @ idNumber form @ ''@example.com''])
   \<and> (validateForm_part000 form = None
      \<longrightarrow> map arg_email (signups (handleRegister_part000 env0 form))
           = [''user'' @ idNumber form @ ''@example.com''])"
proof (intro conjI impI)
  show "\<forall>a\<in>set (signups (handleRegister env form)).
      arg_email a = ''user'' @ idNumber form @ ''@example.com''"
    using signups_handleRegister [of env form] signups_handleRegister_try [of env form]
      arg_email_signUp_args [of form]
    by auto
  show "\<forall>a\<in>set (signups (handleRegister_part000 env0 form)).
      arg_email a = ''user'' @ idNumber form @ ''@example.com''"
    using signups_handleRegister_part000 [of env0 form] arg_email_signUp_args_part000 [of form]
    by auto
  show "map arg_email (signups (handleRegister env form))
           = [''user'' @ idNumber form @ ''@example.com'']"
    if "validateForm form = None
      \<and> citizens_single env (orFilter (idNumber form)) = Resolves lookup
      \<and> citizenError lookup = None \<and> citizenData lookup = Some row"
    using that signups_handleRegister_reached [of form env lookup row]
      arg_email_signUp_args [of form]
    by simp
  show "map arg_email (signups (handleRegister_part000 env0 form))
           = [''user'' @ idNumber form @ ''@example.com'']"
    if v: "validateForm_part000 form = None"
    by (simp add: handleRegister_part000_valid [OF v] signups_catch signups_snoc_SetLoading
        signups_handleRegister_try_part000 arg_email_signUp_args_part000)
qed

theorem signUp_email_witness:
  "map arg_email (signups (handleRegister (sample_supabase lookup_found None) sample_form))
   = [''user9001015009087@example.com'']
   \<and> map arg_email
       (signups
          (handleRegister_part000
             (sample_supabase_part000 (Rejects (JsError [] ''Failed to fetch'')))
             sample_form))
     = [''user9001015009087@example.com'']"
  using signUp_email
          [of "sample_supabase lookup_found None" sample_form
              "sample_supabase_part000 (Rejects (JsError [] ''Failed to fetch''))"
              lookup_found sample_citizen]
  by (simp add: sample_form_valid sample_form_valid_part000 sample_supabase_def
      lookup_found_def)
     (simp add: sample_form_def)

text \<open>
  C10. On the sign-up screen of \<open>part_000\<close> a submission that passes validation calls
  nothing but the provider's sign-up: there is no citizen lookup and no insert. A sign-up
  that succeeds leads to \<open>/login\<close> with no error displayed; an error is displayed only
  when the sign-up call returns an error or rejects, and then there is no navigation.
\<close>

theorem part000_sign_up_only:
  assumes "validateForm_part000 form = None"
  shows "(\<forall>e\<in>set (handleRegister_part000 env form).
            is_call e \<longrightarrow> e = SignUp (signUp_args_part000 form))
       \<and> (\<forall>signedUp.
            auth_signUp_part000 env (signUp_args_part000 form) = Resolves signedUp
            \<and> signUpError signedUp = None
            \<longrightarrow> navigations (handleRegister_part000 env form) = [''/login'']
                \<and> error (run u (handleRegister_part000 env form)) = [])
       \<and> (\<forall>err.
            auth_signUp_part000 env (signUp_args_part000 form) = Rejects err
            \<or> (\<exists>signedUp.
                  auth_signUp_part000 env (signUp_args_part000 form) = Resolves signedUp
                  \<and> signUpError signedUp = Some err)
            \<longrightarrow> navigations (handleRegister_part000 env form) = []
                \<and> error (run u (handleRegister_part000 env form))
                    = (if message err \<noteq> [] then message err else ''Registration failed.''))
       \<and> (error (run u (handleRegister_part000 env form)) \<noteq> []
            \<longrightarrow> (\<exists>err.
                  auth_signUp_part000 env (signUp_args_part000 form) = Rejects err
                  \<or> (\<exists>signedUp.
                        auth_signUp_part000 env (signUp_args_part000 form) = Resolves signedUp
                        \<and> signUpError signedUp = Some err)))"
proof (cases "auth_signUp_part000 env (signUp_args_part000 form)")
  case (Rejects err)
  then show ?thesis
    by (simp add: handleRegister_part000_valid [OF assms] handleRegister_try_part000_cases
        or_default_def run_def)
next
  case (Resolves signedUp)
  show ?thesis
  proof (cases "signUpError signedUp")
    case None
    with Resolves show ?thesis
      by (simp add: handleRegister_part000_valid [OF assms] handleRegister_try_part000_cases
          run_def)
  next
    case (Some err)
    with Resolves show ?thesis
      by (simp add: handleRegister_part000_valid [OF assms] handleRegister_try_part000_cases
          or_default_def run_def)
  qed
qed

theorem part000_sign_up_only_witness:
  "navigations (handleRegister_part000 (sample_supabase_part000 (Resolves signed_up)) sample_form)
   = [''/login'']
   \<and> error (run initial_ui
         (handleRegister_part000 (sample_supabase_part000 (Resolves signed_up)) sample_form))
       = []"
  using part000_sign_up_only
          [OF sample_form_valid_part000,
           of "sample_supabase_part000 (Resolves signed_up)" initial_ui]
  by (simp add: sample_supabase_part000_def signed_up_def)


section \<open>Properties of the login flow\<close>

lemma handleLogin_valid:
  "validateForm_login form = None \<Longrightarrow>
   handleLogin env form =
     SetLoading True
     # (case handleLogin_try env form of
          (evs, None) \<Rightarrow> evs
        | (evs, Some err) \<Rightarrow>
            evs @ [SetError (or_default (message err) ''Login failed. Check ID and password.'')])
     @ [SetLoading False]"
  by (simp add: handleLogin_def)

lemma handleLogin_try_success:
  assumes "fetch env login_url
             \<lparr>req_idNumber = login_idNumber form, req_password = login_password form\<rparr>
           = Resolves response"
    and "ok response"
    and "json response = Resolves (Value body)"
    and "body_token body = Str token" and "token \<noteq> []"
  shows "handleLogin_try env form =
           ([Fetch login_url
               \<lparr>req_idNumber = login_idNumber form, req_password = login_password form\<rparr>,
             SetItem ''token'' token, Navigate ''/home''],
            None)"
  using assms by (simp add: handleLogin_try_def Let_def)

lemma handleLogin_try_failure:
  assumes "fetch env login_url
             \<lparr>req_idNumber = login_idNumber form, req_password = login_password form\<rparr>
           = Resolves response"
    and "\<not> ok response"
    and "json response = Resolves (Value body)"
  shows "handleLogin_try env form =
           ([Fetch login_url
               \<lparr>req_idNumber = login_idNumber form, req_password = login_password form\<rparr>],
            Some (if truthy (body_message body)
                  then (case String_of (body_message body) of
                          Inl err \<Rightarrow> err
                        | Inr shown \<Rightarrow> new_Error shown)
                  else new_Error ''Login failed.''))"
  using assms by (simp add: handleLogin_try_def Let_def split: sum.splits)

lemma handleLogin_try_rejected:
  assumes "fetch env login_url
             \<lparr>req_idNumber = login_idNumber form, req_password = login_password form\<rparr>
           = Resolves response"
    and "\<not> ok response"
  shows "\<exists>err. handleLogin_try env form =
           ([Fetch login_url
               \<lparr>req_idNumber = login_idNumber form, req_password = login_password form\<rparr>],
            Some err)"
  using assms
  by (simp add: handleLogin_try_def Let_def
      split: awaited.splits parsed_json.splits sum.splits)

text \<open>
  C4. When a login passes validation and the endpoint answers HTTP 200 with a body whose
  token is \<open>abc\<close>, the key \<open>token\<close> of local storage is set to \<open>abc\<close>, by the one write
  of the flow, and there is exactly one navigation, to \<open>/home\<close>.
\<close>

theorem login_success_stores_token:
  assumes "validateForm_login form = None"
    and "fetch env login_url
           \<lparr>req_idNumber = login_idNumber form, req_password = login_password form\<rparr>
         = Resolves response"
    and "status response = 200"
    and "json response = Resolves (Value data)"
    and "body_token data = Str ''abc''"
  shows "localStorage (run u (handleLogin env form)) ''token'' = Some ''abc''
       \<and> storage_writes (handleLogin env form) = [(''token'', ''abc'')]
       \<and> navigations (handleLogin env form) = [''/home'']"
proof -
  have "ok response"
    by (simp add: ok_def assms(3))
  from handleLogin_try_success [OF assms(2) this assms(4,5)]
  show ?thesis
    by (simp add: handleLogin_valid [OF assms(1)] run_def)
qed

theorem login_success_stores_token_witness:
  "localStorage
     (run initial_ui (handleLogin (sample_network 200 (Resolves (Value body_abc))) sample_login))
     ''token''
   = Some ''abc''
   \<and> navigations (handleLogin (sample_network 200 (Resolves (Value body_abc))) sample_login)
     = [''/home'']"
proof -
  let ?response = "\<lparr>status = 200, json = Resolves (Value body_abc)\<rparr>"
  have fetched:
    "fetch (sample_network 200 (Resolves (Value body_abc))) login_url
       \<lparr>req_idNumber = login_idNumber sample_login,
         req_password = login_password sample_login\<rparr>
     = Resolves ?response"
    by (simp add: sample_network_def)
  have st: "status ?response = 200"
    by simp
  have parsed: "json ?response = Resolves (Value body_abc)"
    by simp
  have token: "body_token body_abc = Str ''abc''"
    by (simp add: body_abc_def)
  show ?thesis
    using login_success_stores_token
            [OF sample_login_valid fetched st parsed token, of initial_ui]
    by blast
qed

text \<open>
  C5, as the specification states it: on a non-success status the displayed error is the
  message field of the response when it is present. It fails for HTTP 401 with the body
  \<open>{message: ""}\<close>, whose message field is present and empty: the default
  \<open>Login failed.\<close> is displayed.
\<close>

theorem login_failure_message_counterexample:
  "\<not> ok \<lparr>status = 401, json = Resolves (Value body_empty_message)\<rparr>
   \<and> body_message body_empty_message = Str []
   \<and> error (run initial_ui
         (handleLogin (sample_network 401 (Resolves (Value body_empty_message))) sample_login))
       = ''Login failed.''
   \<and> error (run initial_ui
         (handleLogin (sample_network 401 (Resolves (Value body_empty_message))) sample_login))
       \<noteq> []"
  by (simp add: handleLogin_valid [OF sample_login_valid] handleLogin_try_def sample_network_def
      body_empty_message_def ok_def or_default_def new_Error_def run_def Let_def)

text \<open>
  Two more answers at which the displayed error is neither a message field nor
  \<open>Login failed.\<close>: the body \<open>null\<close>, where reading \<open>data.message\<close> throws, and a body
  that is no JSON, where \<open>response.json()\<close> rejects. The catch block displays the thrown
  error in both.
\<close>

lemma login_null_body_displays_TypeError:
  "error (run initial_ui (handleLogin (sample_network 401 (Resolves Null)) sample_login))
   = message (cannot_read_null ''message'')
   \<and> message (cannot_read_null ''message'') \<noteq> ''Login failed.''"
  by (simp add: handleLogin_valid [OF sample_login_valid] handleLogin_try_def sample_network_def
      ok_def or_default_def cannot_read_null_def run_def Let_def)

lemma login_unparsed_body_displays_parse_error:
  "error (run initial_ui (handleLogin (sample_network 401 (Rejects unexpected_end)) sample_login))
   = ''Unexpected end of JSON input''"
  by (simp add: handleLogin_valid [OF sample_login_valid] handleLogin_try_def sample_network_def
      ok_def or_default_def unexpected_end_def run_def Let_def)

text \<open>
  C5, amended: when a login passes validation and the endpoint answers with a non-success
  status, nothing is written to local storage and nothing navigates. If the body parses
  to a value other than \<open>null\<close>, the displayed error is its message field when that is a
  non-empty string, the text of the field when it is another truthy value with a non-empty
  text, and \<open>Login failed.\<close> when the field is absent or falsy (\<open>null\<close>, \<open>false\<close>, zero,
  the empty string).
\<close>

theorem login_failure_message:
  assumes "validateForm_login form = None"
    and "fetch env login_url
           \<lparr>req_idNumber = login_idNumber form, req_password = login_password form\<rparr>
         = Resolves response"
    and "\<not> ok response"
  shows "(\<forall>data m. json response = Resolves (Value data)
                   \<and> body_message data = Str m \<and> m \<noteq> []
            \<longrightarrow> error (run u (handleLogin env form)) = m)
       \<and> (\<forall>data shown. json response = Resolves (Value data)
                   \<and> body_message data = Other True (Inr shown) \<and> shown \<noteq> []
            \<longrightarrow> error (run u (handleLogin env form)) = shown)
       \<and> (\<forall>data. json response = Resolves (Value data) \<and> \<not> truthy (body_message data)
            \<longrightarrow> error (run u (handleLogin env form)) = ''Login failed.'')
       \<and> storage_writes (handleLogin env form) = []
       \<and> localStorage (run u (handleLogin env form)) = localStorage u
       \<and> navigations (handleLogin env form) = []"
proof -
  obtain err where thrown:
    "handleLogin_try env form =
       ([Fetch login_url
           \<lparr>req_idNumber = login_idNumber form, req_password = login_password form\<rparr>],
        Some err)"
    using handleLogin_try_rejected [OF assms(2,3)] by blast
  have string: "error (run u (handleLogin env form)) = m"
    if "json response = Resolves (Value data)" and "body_message data = Str m" and "m \<noteq> []"
    for data m
    using that(2,3)
    by (simp add: handleLogin_valid [OF assms(1)] handleLogin_try_failure [OF assms(2,3) that(1)]
        or_default_def new_Error_def run_def)
  have other: "error (run u (handleLogin env form)) = shown"
    if "json response = Resolves (Value data)"
      and "body_message data = Other True (Inr shown)" and "shown \<noteq> []"
    for data shown
    using that(2,3)
    by (simp add: handleLogin_valid [OF assms(1)] handleLogin_try_failure [OF assms(2,3) that(1)]
        or_default_def new_Error_def run_def)
  have falsy: "error (run u (handleLogin env form)) = ''Login failed.''"
    if "json response = Resolves (Value data)" and "\<not> truthy (body_message data)"
    for data
    using that(2)
    by (simp add: handleLogin_valid [OF assms(1)] handleLogin_try_failure [OF assms(2,3) that(1)]
        or_default_def new_Error_def run_def)
  have quiet:
    "storage_writes (handleLogin env form) = []
     \<and> localStorage (run u (handleLogin env form)) = localStorage u
     \<and> navigations (handleLogin env form) = []"
    by (simp add: handleLogin_valid [OF assms(1)] thrown run_def)
  from string other falsy quiet show ?thesis by blast
qed

theorem login_failure_message_witness:
  "error (run initial_ui
     (handleLogin (sample_network 401 (Resolves (Value body_bad_creds))) sample_login))
   = ''bad creds''
   \<and> storage_writes
       (handleLogin (sample_network 401 (Resolves (Value body_bad_creds))) sample_login) = []
   \<and> navigations
       (handleLogin (sample_network 401 (Resolves (Value body_bad_creds))) sample_login) = []"
proof -
  let ?response = "\<lparr>status = 401, json = Resolves (Value body_bad_creds)\<rparr>"
  have fetched:
    "fetch (sample_network 401 (Resolves (Value body_bad_creds))) login_url
       \<lparr>req_idNumber = login_idNumber sample_login,
         req_password = login_password sample_login\<rparr>
     = Resolves ?response"
    by (simp add: sample_network_def)
  have st: "\<not> ok ?response"
    by (simp add: ok_def)
  show ?thesis
    using login_failure_message [OF sample_login_valid fetched st, of initial_ui]
    by (simp add: body_bad_creds_def)
qed


section \<open>The loading flag\<close>

lemma handleLogin_try_quiet: "\<forall>e\<in>set (fst (handleLogin_try env form)). \<not> is_SetLoading e"
  by (auto simp add: handleLogin_try_def Let_def
      split: awaited.splits parsed_json.splits sum.splits)

lemma handleRegister_try_quiet:
  "\<forall>e\<in>set (fst (handleRegister_try env form)). \<not> is_SetLoading e"
  by (auto simp add: handleRegister_try_def Let_def logged_def
      split: awaited.splits option.splits)

lemma handleRegister_try_part000_quiet:
  "\<forall>e\<in>set (fst (handleRegister_try_part000 env form)). \<not> is_SetLoading e"
  by (auto simp add: handleRegister_try_part000_def Let_def
      split: awaited.splits option.splits)

lemma catch_quiet:
  assumes "\<forall>e\<in>set (fst r). \<not> is_SetLoading e"
  shows "\<forall>e\<in>set (case r of (evs, None) \<Rightarrow> evs
                  | (evs, Some err) \<Rightarrow> evs @ [SetError (h err)]).
           \<not> is_SetLoading e"
  using assms by (cases r) (auto split: option.splits)

text \<open>
  A trace that sets the flag, then runs events that leave it alone, then clears it: the
  flag is off at the end, whatever the state before.
\<close>

lemma bracketed:
  assumes "trace = pre @ SetLoading True # mid @ [SetLoading False]"
    and "\<forall>e\<in>set mid. \<not> is_SetLoading e"
  shows "(\<exists>mid. trace = pre @ SetLoading True # mid @ [SetLoading False]
               \<and> (\<forall>e\<in>set mid. \<not> is_SetLoading e))
         \<and> \<not> loading (run u trace)"
proof
  show "\<exists>mid. trace = pre @ SetLoading True # mid @ [SetLoading False]
               \<and> (\<forall>e\<in>set mid. \<not> is_SetLoading e)"
    using assms by (intro exI [of _ mid]) simp
  show "\<not> loading (run u trace)"
    by (simp add: assms(1) run_def)
qed

text \<open>
  C8. Every login or registration that passes validation sets the loading flag before
  anything else happens outside the screen, and clears it as its last step, on every
  outcome of the awaited calls (resolved or rejected): between the two nothing touches the
  flag, and it is off in the final state.
\<close>

theorem loading_cleared:
  "(validateForm_login lform = None \<longrightarrow>
      (\<exists>mid. handleLogin net lform = SetLoading True # mid @ [SetLoading False]
             \<and> (\<forall>e\<in>set mid. \<not> is_SetLoading e))
      \<and> \<not> loading (run u (handleLogin net lform)))
   \<and> (validateForm form = None \<longrightarrow>
      (\<exists>mid. handleRegister env form = SetError [] # SetLoading True # mid @ [SetLoading False]
             \<and> (\<forall>e\<in>set mid. \<not> is_SetLoading e))
      \<and> \<not> loading (run u (handleRegister env form)))
   \<and> (validateForm_part000 form = None \<longrightarrow>
      (\<exists>mid. handleRegister_part000 env0 form
               = SetError [] # SetLoading True # mid @ [SetLoading False]
             \<and> (\<forall>e\<in>set mid. \<not> is_SetLoading e))
      \<and> \<not> loading (run u (handleRegister_part000 env0 form)))"
proof (intro conjI impI)
  assume v: "validateForm_login lform = None"
  have tr: "handleLogin net lform = [] @ SetLoading True
              # (case handleLogin_try net lform of
                   (evs, None) \<Rightarrow> evs
                 | (evs, Some err) \<Rightarrow>
                     evs @ [SetError (or_default (message err)
                                        ''Login failed. Check ID and password.'')])
              @ [SetLoading False]"
    using handleLogin_valid [OF v] by simp
  from bracketed [OF tr catch_quiet [OF handleLogin_try_quiet]]
  show "\<exists>mid. handleLogin net lform = SetLoading True # mid @ [SetLoading False]
             \<and> (\<forall>e\<in>set mid. \<not> is_SetLoading e)"
    and "\<not> loading (run u (handleLogin net lform))"
    by simp_all
next
  assume v: "validateForm form = None"
  have tr: "handleRegister env form = [SetError []] @ SetLoading True
              # (case handleRegister_try env form of
                   (evs, None) \<Rightarrow> evs
                 | (evs, Some err) \<Rightarrow>
                     evs @ [SetError (or_default (message err) ''Registration failed.'')])
              @ [SetLoading False]"
    using handleRegister_valid [OF v] by simp
  from bracketed [OF tr catch_quiet [OF handleRegister_try_quiet]]
  show "\<exists>mid. handleRegister env form = SetError [] # SetLoading True # mid @ [SetLoading False]
             \<and> (\<forall>e\<in>set mid. \<not> is_SetLoading e)"
    and "\<not> loading (run u (handleRegister env form))"
    by simp_all
next
  assume v: "validateForm_part000 form = None"
  have tr: "handleRegister_part000 env0 form = [SetError []] @ SetLoading True
              # (case handleRegister_try_part000 env0 form of
                   (evs, None) \<Rightarrow> evs
                 | (evs, Some err) \<Rightarrow>
                     evs @ [SetError (or_default (message err) ''Registration failed.'')])
              @ [SetLoading False]"
    using handleRegister_part000_valid [OF v] by simp
  from bracketed [OF tr catch_quiet [OF handleRegister_try_part000_quiet]]
  show "\<exists>mid. handleRegister_part000 env0 form
               = SetError [] # SetLoading True # mid @ [SetLoading False]
             \<and> (\<forall>e\<in>set mid. \<not> is_SetLoading e)"
    and "\<not> loading (run u (handleRegister_part000 env0 form))"
    by simp_all
qed

theorem loading_cleared_witness:
  "\<not> loading (run (initial_ui\<lparr>loading := True\<rparr>)
        (handleLogin (sample_network 500 (Resolves Null)) sample_login))
   \<and> \<not> loading (run (initial_ui\<lparr>loading := True\<rparr>)
        (handleRegister (sample_supabase lookup_no_rows None) sample_form))
   \<and> \<not> loading (run (initial_ui\<lparr>loading := True\<rparr>)
        (handleRegister_part000
           (sample_supabase_part000 (Rejects (JsError [] ''Failed to fetch''))) sample_form))"
  using loading_cleared
          [of sample_login "sample_network 500 (Resolves Null)" "initial_ui\<lparr>loading := True\<rparr>"
              sample_form "sample_supabase lookup_no_rows None"
              "sample_supabase_part000 (Rejects (JsError [] ''Failed to fetch''))"]
  by (simp add: sample_login_valid sample_form_valid sample_form_valid_part000)

end
